theory Spec2Isabelle
  imports Main
begin

section \<open>Python strings\<close>

text \<open>
  A Python \<open>str\<close> is a sequence of Unicode code points, so it is modelled as a list of
  natural numbers; \<open>bytes\<close> is a list of numbers as well. Literals of the source are
  written as HOL string literals and converted with \<open>ustr\<close>.
\<close>

type_synonym pystr = "nat list"
type_synonym bytes = "nat list"

definition ustr :: "string \<Rightarrow> pystr" where
  "ustr s = map of_char s"

text \<open>
  \<open>str.isspace\<close> on one code point, as \<open>str.strip()\<close> uses it: the characters of
  CPython's whitespace table.
\<close>

definition isspace :: "nat \<Rightarrow> bool" where
  "isspace c \<longleftrightarrow>
     (9 \<le> c \<and> c \<le> 13) \<or> (28 \<le> c \<and> c \<le> 32) \<or> c = 133 \<or> c = 160 \<or> c = 5760 \<or>
     (8192 \<le> c \<and> c \<le> 8202) \<or> c = 8232 \<or> c = 8233 \<or> c = 8239 \<or> c = 8287 \<or> c = 12288"

definition strip :: "pystr \<Rightarrow> pystr" where
  "strip s = rev (dropWhile isspace (rev (dropWhile isspace s)))"

definition startswith :: "pystr \<Rightarrow> pystr \<Rightarrow> bool" where
  "startswith s p \<longleftrightarrow> take (length p) s = p"

definition endswith :: "pystr \<Rightarrow> pystr \<Rightarrow> bool" where
  "endswith s p \<longleftrightarrow> length p \<le> length s \<and> drop (length s - length p) s = p"

text \<open>
  \<open>str.lower()\<close>. The letters \<open>A\<close> to \<open>Z\<close> become \<open>a\<close> to \<open>z\<close>. Outside
  ASCII Python follows the Unicode case tables; no character there has a lower-case form
  containing a full stop or one of the letters of \<open>.pdf\<close>, \<open>.docx\<close>, \<open>.doc\<close>, so for
  the suffix tests of this program those code points are left as they are.
\<close>

definition lower_char :: "nat \<Rightarrow> nat" where
  "lower_char c = (if 65 \<le> c \<and> c \<le> 90 then c + 32 else c)"

definition lower :: "pystr \<Rightarrow> pystr" where
  "lower s = map lower_char s"

text \<open>\<open>str(n)\<close> for a non-negative integer: its decimal digits.\<close>

fun str_nat :: "nat \<Rightarrow> pystr" where
  "str_nat n = (if n < 10 then [48 + n] else str_nat (n div 10) @ [48 + n mod 10])"

declare str_nat.simps [simp del]

section \<open>Text extraction\<close>

text \<open>
  A Python exception is modelled by its message. The two failures of the extractor are
  the ones the source raises: the message for an unsupported file name, and the wrapped
  message of whatever the document library raised.
\<close>

datatype exn = Exception pystr

definition UnsupportedFormat :: exn where
  "UnsupportedFormat =
     Exception (ustr ''Unsupported file format. Please upload PDF or DOCX files.'')"

text \<open>
  The document libraries are outside the repository and enter as parameters. A PDF
  reader maps the bytes either to the message of the exception it raises, or to the
  pages' text layers in page order (\<open>None\<close> or the empty string when a page has none).
  A DOCX reader maps the bytes to the paragraphs' texts in document order.
\<close>

type_synonym pdf_reader = "bytes \<Rightarrow> pystr + pystr option list"
type_synonym docx_reader = "bytes \<Rightarrow> pystr + pystr list"

text \<open>The truth value of \<open>page_text\<close> in \<open>if page_text:\<close>.\<close>

fun truthy :: "pystr option \<Rightarrow> bool" where
  "truthy None = False"
| "truthy (Some t) = (t \<noteq> [])"

definition page_marker :: "nat \<Rightarrow> pystr" where
  "page_marker page_num = ustr ''\<newline>--- Page '' @ str_nat page_num @ ustr '' ---\<newline>''"

text \<open>
  The loop of \<open>extract_text_from_pdf\<close> over \<open>enumerate(pdf_reader.pages, 1)\<close>: the
  page number, the pages still to visit and the text accumulated so far.
\<close>

fun pdf_loop :: "nat \<Rightarrow> pystr option list \<Rightarrow> pystr \<Rightarrow> pystr" where
  "pdf_loop page_num [] text = text"
| "pdf_loop page_num (page_text # pages) text =
     pdf_loop (page_num + 1) pages
       (if truthy page_text
        then text @ page_marker page_num @ the page_text @ ustr ''\<newline>''
        else text)"

definition extract_text_from_pdf :: "pdf_reader \<Rightarrow> bytes \<Rightarrow> exn + pystr" where
  "extract_text_from_pdf reader file_content =
     (case reader file_content of
        Inl e \<Rightarrow> Inl (Exception (ustr ''Error extracting PDF text: '' @ e))
      | Inr pages \<Rightarrow> Inr (strip (pdf_loop 1 pages [])))"

text \<open>The loop of \<open>extract_text_from_docx\<close> over \<open>doc.paragraphs\<close>.\<close>

fun docx_loop :: "pystr list \<Rightarrow> pystr \<Rightarrow> pystr" where
  "docx_loop [] text = text"
| "docx_loop (paragraph # paragraphs) text =
     docx_loop paragraphs
       (if strip paragraph \<noteq> [] then text @ paragraph @ ustr ''\<newline>'' else text)"

definition extract_text_from_docx :: "docx_reader \<Rightarrow> bytes \<Rightarrow> exn + pystr" where
  "extract_text_from_docx reader file_content =
     (case reader file_content of
        Inl e \<Rightarrow> Inl (Exception (ustr ''Error extracting DOCX text: '' @ e))
      | Inr paragraphs \<Rightarrow> Inr (strip (docx_loop paragraphs [])))"

text \<open>
  The uploaded file is a named byte stream with a read position. \<open>read()\<close> returns the
  bytes from the position on and leaves the position at the end of the data.
\<close>

record uploaded_file =
  name :: pystr
  data :: bytes
  pos :: nat

definition read :: "uploaded_file \<Rightarrow> bytes \<times> uploaded_file" where
  "read f = (drop (pos f) (data f), f\<lparr>pos := max (pos f) (length (data f))\<rparr>)"

text \<open>
  The effects of one call of \<open>extract_text_from_file\<close>, in the order in which they
  happen: reading the upload, and handing bytes to one of the two document decoders.
\<close>

datatype event = ReadUpload | DecodePDF | DecodeDOCX

record extraction =
  outcome :: "exn + pystr"
  upload :: uploaded_file
  events :: "event list"

definition extract_text_from_file :: "pdf_reader \<Rightarrow> docx_reader \<Rightarrow> uploaded_file \<Rightarrow> extraction" where
  "extract_text_from_file pdf docx uploaded =
     (let (file_content, uploaded') = read uploaded;
          filename = lower (name uploaded)
      in if endswith filename (ustr ''.pdf'')
         then \<lparr>outcome = extract_text_from_pdf pdf file_content,
               upload = uploaded', events = [ReadUpload, DecodePDF]\<rparr>
         else if endswith filename (ustr ''.docx'') \<or> endswith filename (ustr ''.doc'')
         then \<lparr>outcome = extract_text_from_docx docx file_content,
               upload = uploaded', events = [ReadUpload, DecodeDOCX]\<rparr>
         else \<lparr>outcome = Inl UnsupportedFormat,
               upload = uploaded', events = [ReadUpload]\<rparr>)"

section \<open>Python values and the JSON decoder\<close>

text \<open>
  What \<open>json.loads\<close> returns is a Python object: \<open>None\<close>, a \<open>bool\<close>, an \<open>int\<close>, a
  \<open>float\<close>, a \<open>str\<close>, a \<open>list\<close> or a \<open>dict\<close> with string keys. A \<open>dict\<close> keeps
  its keys in insertion order and is modelled as an association list. Binary floating
  point is outside this model: a finite float is represented by the decimal literal it
  was read from, and only the three special values are told apart.
\<close>

datatype pyfloat = NaN | PosInf | NegInf | Finite pystr

datatype pyobj =
    PyNone
  | PyBool bool
  | PyInt int
  | PyFloat pyfloat
  | PyStr pystr
  | PyList "pyobj list"
  | PyDict "(pystr \<times> pyobj) list"

text \<open>
  The decoder is the one of the Python standard library (\<open>json.loads\<close> with its default
  arguments), which is not part of the repository. It is modelled as a scanner producing
  tokens followed by a parser over the tokens; the functions carry the names of the
  library's (\<open>scanstring\<close>, \<open>match_number\<close> for \<open>NUMBER_RE\<close>, \<open>scan_once\<close>).

  The decoder raises three kinds of exception, and the program treats them differently:
  \<open>JSONDecodeError\<close> for a text that is not of the accepted syntax, \<open>ValueError\<close> when
  an integer literal has more digits than the interpreter converts (4300 unless the
  interpreter is configured otherwise, which the program does not do), and
  \<open>RecursionError\<close> when arrays and objects are nested more deeply than the
  interpreter's recursion limit leaves room for. The last two carry the message that
  \<open>str(e)\<close> gives.
\<close>

datatype raised = JSONDecodeError | ValueError pystr | RecursionError pystr

definition is_digit :: "nat \<Rightarrow> bool" where
  "is_digit c \<longleftrightarrow> 48 \<le> c \<and> c \<le> 57"

definition hexval :: "nat \<Rightarrow> nat option" where
  "hexval c =
     (if 48 \<le> c \<and> c \<le> 57 then Some (c - 48)
      else if 65 \<le> c \<and> c \<le> 70 then Some (c - 55)
      else if 97 \<le> c \<and> c \<le> 102 then Some (c - 87)
      else None)"

fun decode_uXXXX :: "pystr \<Rightarrow> nat option" where
  "decode_uXXXX (a # b # c # d # rest) =
     (case (hexval a, hexval b, hexval c, hexval d) of
        (Some x, Some y, Some z, Some w) \<Rightarrow> Some (((x * 16 + y) * 16 + z) * 16 + w)
      | _ \<Rightarrow> None)"
| "decode_uXXXX _ = None"

definition BACKSLASH :: "nat \<Rightarrow> nat option" where
  "BACKSLASH esc =
     (if esc = 34 then Some 34
      else if esc = 92 then Some 92
      else if esc = 47 then Some 47
      else if esc = 98 then Some 8
      else if esc = 102 then Some 12
      else if esc = 110 then Some 10
      else if esc = 114 then Some 13
      else if esc = 116 then Some 9
      else None)"

definition emit :: "'a \<Rightarrow> ('a list \<times> 'b) option \<Rightarrow> ('a list \<times> 'b) option" where
  "emit x r = (case r of None \<Rightarrow> None | Some (xs, rest) \<Rightarrow> Some (x # xs, rest))"

lemma emit_cong [fundef_cong]: "r = r' \<Longrightarrow> emit x r = emit x r'" by simp

fun scanstring :: "pystr \<Rightarrow> (pystr \<times> pystr) option" where
  "scanstring [] = None"
| "scanstring (c # cs) =
     (if c = 34 then Some ([], cs)
      else if c = 92 then
        (case cs of
           [] \<Rightarrow> None
         | esc # cs' \<Rightarrow>
             if esc = 117 then
               (case decode_uXXXX cs' of
                  None \<Rightarrow> None
                | Some uni \<Rightarrow>
                    if 55296 \<le> uni \<and> uni \<le> 56319 \<and> take 2 (drop 4 cs') = [92, 117] then
                      (case decode_uXXXX (drop 6 cs') of
                         None \<Rightarrow> None
                       | Some uni2 \<Rightarrow>
                           if 56320 \<le> uni2 \<and> uni2 \<le> 57343
                           then emit (65536 + ((uni - 55296) * 1024 + (uni2 - 56320)))
                                  (scanstring (drop 10 cs'))
                           else emit uni (scanstring (drop 4 cs')))
                    else emit uni (scanstring (drop 4 cs')))
             else
               (case BACKSLASH esc of
                  None \<Rightarrow> None
                | Some ch \<Rightarrow> emit ch (scanstring cs')))
      else if c < 32 then None
      else emit c (scanstring cs))"


lemma scanstring_shorter: "scanstring cs = Some (s, rest) \<Longrightarrow> length rest < Suc (length cs)"
  by (induction cs arbitrary: s rest rule: scanstring.induct)
     (fastforce simp: emit_def split: if_splits option.splits list.splits)+

definition int_of_digits :: "pystr \<Rightarrow> int" where
  "int_of_digits ds = foldl (\<lambda>n d. 10 * n + (int d - 48)) 0 ds"

text \<open>
  The three groups of \<open>NUMBER_RE\<close>: an integer part with an optional sign and no
  leading zero, an optional fraction, an optional exponent. Each returns what it matched
  and the rest of the text.
\<close>

definition match_integer :: "pystr \<Rightarrow> (pystr \<times> pystr) option" where
  "match_integer s =
     (let (sign, s1) = (case s of c # cs \<Rightarrow> if c = 45 then ([c], cs) else ([], s) | [] \<Rightarrow> ([], s))
      in case s1 of
           [] \<Rightarrow> None
         | d # ds \<Rightarrow>
             if d = 48 then Some (sign @ [d], ds)
             else if is_digit d then Some (sign @ d # takeWhile is_digit ds, dropWhile is_digit ds)
             else None)"

definition match_frac :: "pystr \<Rightarrow> pystr \<times> pystr" where
  "match_frac s =
     (case s of
        c # d # ds \<Rightarrow>
          if c = 46 \<and> is_digit d then (c # d # takeWhile is_digit ds, dropWhile is_digit ds)
          else ([], s)
      | _ \<Rightarrow> ([], s))"

definition match_exp :: "pystr \<Rightarrow> pystr \<times> pystr" where
  "match_exp s =
     (case s of
        e # r \<Rightarrow>
          if e = 101 \<or> e = 69 then
            (let (sign, r') = (case r of c # cs \<Rightarrow> if c = 45 \<or> c = 43 then ([c], cs) else ([], r)
                                       | [] \<Rightarrow> ([], r))
             in case r' of
                  d # ds \<Rightarrow>
                    if is_digit d
                    then (e # sign @ d # takeWhile is_digit ds, dropWhile is_digit ds)
                    else ([], s)
                | [] \<Rightarrow> ([], s))
          else ([], s)
      | [] \<Rightarrow> ([], s))"

definition py_int :: "pystr \<Rightarrow> int" where
  "py_int lit = (case lit of c # cs \<Rightarrow> if c = 45 then - int_of_digits cs else int_of_digits lit
                            | [] \<Rightarrow> 0)"

text \<open>
  The conversion of an integer literal (\<open>PyLong_FromString\<close>, base 10): a literal with
  more digits than \<open>sys.get_int_max_str_digits()\<close> is refused with a \<open>ValueError\<close>. A
  literal that has a fraction or an exponent is a float, for which there is no such limit.
\<close>

definition int_max_str_digits :: nat where
  "int_max_str_digits = 4300"

definition PyLong_FromString :: "pystr \<Rightarrow> raised + pyobj" where
  "PyLong_FromString lit =
     (let digits = length (filter is_digit lit)
      in if int_max_str_digits < digits
         then Inl (ValueError
                (ustr ''Exceeds the limit ('' @ str_nat int_max_str_digits @
                 ustr '' digits) for integer string conversion: value has '' @ str_nat digits @
                 ustr '' digits; use sys.set_int_max_str_digits() to increase the limit''))
         else Inr (PyInt (py_int lit)))"

definition match_number :: "pystr \<Rightarrow> ((raised + pyobj) \<times> pystr) option" where
  "match_number s =
     (case match_integer s of
        None \<Rightarrow> None
      | Some (integer, s1) \<Rightarrow>
          (let (frac, s2) = match_frac s1; (exp, s3) = match_exp s2
           in if frac \<noteq> [] \<or> exp \<noteq> []
              then Some (Inr (PyFloat (Finite (integer @ frac @ exp))), s3)
              else Some (PyLong_FromString integer, s3)))"

lemma last_takeWhile: "takeWhile P ds \<noteq> [] \<Longrightarrow> P (last (takeWhile P ds))"
  by (induction ds) (auto split: if_splits)

lemma is_digit_zero: "is_digit 48"
  by (simp add: is_digit_def)

lemma match_integer_prefix:
  "match_integer s = Some (i, r) \<Longrightarrow> s = i @ r \<and> i \<noteq> [] \<and> is_digit (last i)"
  unfolding match_integer_def Let_def
  by (auto split: list.splits if_splits simp: is_digit_zero last_takeWhile)

lemma match_frac_prefix:
  "match_frac s = (f, r) \<Longrightarrow> s = f @ r \<and> (f = [] \<or> is_digit (last f))"
  unfolding match_frac_def
  by (auto split: list.splits if_splits simp: last_takeWhile)

lemma match_exp_prefix:
  "match_exp s = (e, r) \<Longrightarrow> s = e @ r \<and> (e = [] \<or> is_digit (last e))"
  unfolding match_exp_def Let_def
  by (auto split: list.splits if_splits simp: last_takeWhile)

lemma match_number_prefix:
  assumes "match_number s = Some (v, rest)"
  shows "\<exists>pre. s = pre @ rest \<and> pre \<noteq> [] \<and> is_digit (last pre)"
proof -
  from assms obtain i s1 where i: "match_integer s = Some (i, s1)"
    by (auto simp: match_number_def split: option.splits)
  obtain f s2 where f: "match_frac s1 = (f, s2)" by (cases "match_frac s1")
  obtain e s3 where e: "match_exp s2 = (e, s3)" by (cases "match_exp s2")
  from assms i f e have r: "rest = s3"
    by (auto simp: match_number_def split: if_splits)
  note I = match_integer_prefix [OF i] and F = match_frac_prefix [OF f]
    and E = match_exp_prefix [OF e]
  have s: "s = (i @ f @ e) @ rest" using I F E r by simp
  have "is_digit (last (i @ f @ e))" using I F E by (cases "e = []"; cases "f = []") auto
  with s I show ?thesis by blast
qed

lemma match_number_shorter: "match_number s = Some (v, rest) \<Longrightarrow> length rest < length s"
  by (drule match_number_prefix) auto

text \<open>
  The scanner cuts the text into tokens from left to right. It ends with \<open>TRaise e\<close> at
  the first place where scanning a value raises the exception \<open>e\<close>: a character that
  starts no token or a string that is not well formed (\<open>JSONDecodeError\<close>), or an
  integer literal that is too long (\<open>ValueError\<close>). What follows such a place is never
  looked at by the decoder.
\<close>

datatype token =
    TLBrace | TRBrace | TLBrack | TRBrack | TColon | TComma
  | TString pystr
  | TAtom pyobj
  | TRaise raised

definition is_json_ws :: "nat \<Rightarrow> bool" where
  "is_json_ws c \<longleftrightarrow> c = 32 \<or> c = 9 \<or> c = 10 \<or> c = 13"

function lex :: "pystr \<Rightarrow> token list" where
  "lex [] = []"
| "lex (c # cs) =
     (if is_json_ws c then lex cs
      else if c = 123 then TLBrace # lex cs
      else if c = 125 then TRBrace # lex cs
      else if c = 91 then TLBrack # lex cs
      else if c = 93 then TRBrack # lex cs
      else if c = 58 then TColon # lex cs
      else if c = 44 then TComma # lex cs
      else if c = 34 then
        (case scanstring cs of
           None \<Rightarrow> [TRaise JSONDecodeError]
         | Some (s, rest) \<Rightarrow> TString s # lex rest)
      else if c = 110 \<and> take 3 cs = ustr ''ull'' then TAtom PyNone # lex (drop 3 cs)
      else if c = 116 \<and> take 3 cs = ustr ''rue'' then TAtom (PyBool True) # lex (drop 3 cs)
      else if c = 102 \<and> take 4 cs = ustr ''alse'' then TAtom (PyBool False) # lex (drop 4 cs)
      else
        (case match_number (c # cs) of
           Some (Inr v, rest) \<Rightarrow> TAtom v # lex rest
         | Some (Inl e, rest) \<Rightarrow> [TRaise e]
         | None \<Rightarrow>
             if c = 78 \<and> take 2 cs = ustr ''aN'' then TAtom (PyFloat NaN) # lex (drop 2 cs)
             else if c = 73 \<and> take 7 cs = ustr ''nfinity''
               then TAtom (PyFloat PosInf) # lex (drop 7 cs)
             else if c = 45 \<and> take 8 cs = ustr ''Infinity''
               then TAtom (PyFloat NegInf) # lex (drop 8 cs)
             else [TRaise JSONDecodeError]))"
  by pat_completeness auto
termination
  by (relation "measure length")
     (auto dest: scanstring_shorter match_number_shorter)

fun dict_set :: "(pystr \<times> pyobj) list \<Rightarrow> pystr \<Rightarrow> pyobj \<Rightarrow> (pystr \<times> pyobj) list" where
  "dict_set [] k v = [(k, v)]"
| "dict_set ((k', v') # d) k v = (if k' = k then (k, v) # d else (k', v') # dict_set d k v)"

definition dict :: "(pystr \<times> pyobj) list \<Rightarrow> (pystr \<times> pyobj) list" where
  "dict pairs = foldl (\<lambda>d (k, v). dict_set d k v) [] pairs"

text \<open>
  The decoder proper. \<open>scan_once\<close> reads one value; the stack holds one frame for each
  array or object that is open, with what has been read of it. Entering an array or an
  object takes one level of the interpreter's recursion: \<open>room\<close> is the number of
  levels that the recursion limit leaves at the call of \<open>json.loads\<close> (the limit, 1000
  unless changed, less the depth of the call stack there), and entering a further one
  raises \<open>RecursionError\<close>.
\<close>

datatype frame = InList "pyobj list" | InDict "(pystr \<times> pyobj) list" pystr

definition array_too_deep :: raised where
  "array_too_deep = RecursionError
     (ustr ''maximum recursion depth exceeded while decoding a JSON array from a unicode string'')"

definition object_too_deep :: raised where
  "object_too_deep = RecursionError
     (ustr ''maximum recursion depth exceeded while decoding a JSON object from a unicode string'')"

fun scan_once :: "nat \<Rightarrow> token list \<Rightarrow> frame list \<Rightarrow> raised + pyobj"
and after_value :: "nat \<Rightarrow> pyobj \<Rightarrow> token list \<Rightarrow> frame list \<Rightarrow> raised + pyobj" where
  "scan_once room [] st = Inl JSONDecodeError"
| "scan_once room (t # ts) st =
     (case t of
        TAtom v \<Rightarrow> after_value room v ts st
      | TString s \<Rightarrow> after_value room (PyStr s) ts st
      | TRaise e \<Rightarrow> Inl e
      | TLBrack \<Rightarrow>
          if room \<le> length st then Inl array_too_deep
          else (case ts of
                  TRBrack # ts' \<Rightarrow> after_value room (PyList []) ts' st
                | _ \<Rightarrow> scan_once room ts (InList [] # st))
      | TLBrace \<Rightarrow>
          if room \<le> length st then Inl object_too_deep
          else (case ts of
                  TRBrace # ts' \<Rightarrow> after_value room (PyDict []) ts' st
                | TString k # TColon # ts' \<Rightarrow> scan_once room ts' (InDict [] k # st)
                | _ \<Rightarrow> Inl JSONDecodeError)
      | _ \<Rightarrow> Inl JSONDecodeError)"
| "after_value room v ts [] = (if ts = [] then Inr v else Inl JSONDecodeError)"
| "after_value room v ts (InList acc # st) =
     (case ts of
        TComma # ts' \<Rightarrow> scan_once room ts' (InList (v # acc) # st)
      | TRBrack # ts' \<Rightarrow> after_value room (PyList (rev (v # acc))) ts' st
      | _ \<Rightarrow> Inl JSONDecodeError)"
| "after_value room v ts (InDict acc k # st) =
     (case ts of
        TComma # TString k' # TColon # ts' \<Rightarrow> scan_once room ts' (InDict ((k, v) # acc) k' # st)
      | TRBrace # ts' \<Rightarrow> after_value room (PyDict (dict (rev ((k, v) # acc)))) ts' st
      | _ \<Rightarrow> Inl JSONDecodeError)"

definition json_loads :: "nat \<Rightarrow> pystr \<Rightarrow> raised + pyobj" where
  "json_loads room s = scan_once room (lex s) []"

section \<open>Prompt construction\<close>

definition join_lines :: "string list \<Rightarrow> string" where
  "join_lines ls = concat (map (\<lambda>l. l @ [CHR 0x0A]) ls)"

text \<open>
  The f-string of \<open>create_parsing_prompt\<close>: the text before the placeholder
  \<open>{resume_text}\<close> and the text after it, line by line (a doubled brace of the f-string
  is one brace of the prompt).
\<close>

definition prompt_head :: pystr where
  \<open>prompt_head = ustr (CHR 0x0A # join_lines
     [''You are an expert resume parser and HR analyst. Analyze the following resume text and extract comprehensive information. Be thorough and accurate in your extraction.'',
      '''',
      ''Resume Text:''])\<close>

definition prompt_tail :: pystr where
  \<open>prompt_tail = ustr (CHR 0x0A # join_lines
     ['''',
      ''Extract and structure the following information as a JSON object:'',
      '''',
      ''1. **Personal Information:**'',
      ''   - Full name'',
      ''   - Email address  '',
      ''   - Phone number'',
      ''   - Physical address'',
      ''   - LinkedIn profile URL'',
      ''   - GitHub/Portfolio URLs'',
      ''   - Professional websites'',
      '''',
      ''2. **Professional Summary:** Brief career overview/objective'',
      '''',
      ''3. **Work Experience:** List all jobs with:'',
      ''   - Company name'',
      ''   - Job title/position'',
      ''   - Employment duration (start-end dates)'',
      ''   - Location'',
      ''   - Key responsibilities and achievements'',
      ''   - Technologies/tools used'',
      '''',
      ''4. **Education:** All educational qualifications with:'',
      ''   - Degree/certification name'',
      ''   - Institution name'',
      ''   - Graduation year'',
      ''   - GPA/grades (if mentioned)'',
      ''   - Relevant coursework'',
      '''',
      ''5. **Skills:** Categorize into:'',
      ''   - Technical skills'',
      ''   - Programming languages'',
      ''   - Tools and technologies'',
      ''   - Soft skills'',
      ''   - Languages spoken'',
      '''',
      ''6. **Certifications:** All professional certifications with issuing organizations'',
      '''',
      ''7. **Projects:** Personal/professional projects with:'',
      ''   - Project name'',
      ''   - Description'',
      ''   - Technologies used'',
      ''   - Duration'',
      ''   - Key achievements'',
      '''',
      ''8. **Additional Information:**'',
      ''   - Awards and achievements'',
      ''   - Publications'',
      ''   - Volunteer work'',
      ''   - Hobbies/interests'',
      '''',
      ''Return ONLY a valid JSON object with this exact structure:'',
      ''{'',
      ''    "personal_info": {'',
      ''        "name": "Full Name",'',
      ''        "email": "email@example.com",'',
      ''        "phone": "phone number",'',
      ''        "address": "full address",'',
      ''        "linkedin": "linkedin URL",'',
      ''        "github": "github URL",'',
      ''        "portfolio": "portfolio URL"'',
      ''    },'',
      ''    "summary": "Professional summary text",'',
      ''    "experience": ['',
      ''        {'',
      ''            "company": "Company Name",'',
      ''            "position": "Job Title",'',
      ''            "duration": "Start Date - End Date",'',
      ''            "location": "City, State",'',
      ''            "description": "Job description and achievements",'',
      ''            "technologies": ["tech1", "tech2"]'',
      ''        }'',
      ''    ],'',
      ''    "education": ['',
      ''        {'',
      ''            "degree": "Degree Name",'',
      ''            "institution": "Institution Name",'',
      ''            "year": "Graduation Year",'',
      ''            "gpa": "GPA if mentioned",'',
      ''            "coursework": ["course1", "course2"]'',
      ''        }'',
      ''    ],'',
      ''    "skills": {'',
      ''        "technical": ["skill1", "skill2"],'',
      ''        "programming": ["lang1", "lang2"],'',
      ''        "tools": ["tool1", "tool2"],'',
      ''        "soft_skills": ["skill1", "skill2"],'',
      ''        "languages": ["English", "Spanish"]'',
      ''    },'',
      ''    "certifications": ['',
      ''        {'',
      ''            "name": "Certification Name",'',
      ''            "issuer": "Issuing Organization",'',
      ''            "date": "Issue Date"'',
      ''        }'',
      ''    ],'',
      ''    "projects": ['',
      ''        {'',
      ''            "name": "Project Name",'',
      ''            "description": "Project description",'',
      ''            "technologies": ["tech1", "tech2"],'',
      ''            "duration": "Project duration",'',
      ''            "achievements": "Key achievements"'',
      ''        }'',
      ''    ],'',
      ''    "additional": {'',
      ''        "awards": ["award1", "award2"],'',
      ''        "publications": ["pub1", "pub2"],'',
      ''        "volunteer": ["volunteer work"],'',
      ''        "interests": ["interest1", "interest2"]'',
      ''    }'',
      ''}'',
      '''',
      ''If any field is not found, use null or empty array []. Ensure all text is properly extracted and formatted.''])\<close>

definition create_parsing_prompt :: "pystr \<Rightarrow> pystr" where
  "create_parsing_prompt resume_text = prompt_head @ resume_text @ prompt_tail"

section \<open>Response normalization\<close>

text \<open>
  Lines 294 to 301 of \<open>parse_resume_with_ai\<close>: the response text is trimmed, a leading
  \<open>```json\<close> (seven characters) and a trailing \<open>```\<close> are cut when present, and the rest
  is trimmed again.
\<close>

definition clean_markdown :: "pystr \<Rightarrow> pystr" where
  "clean_markdown text0 =
     (let response_text = strip text0;
          response_text = (if startswith response_text (ustr ''```json'')
                           then drop 7 response_text else response_text);
          response_text = (if endswith response_text (ustr ''```'')
                           then take (length response_text - 3) response_text
                           else response_text)
      in strip response_text)"

definition failure_record :: "pystr \<Rightarrow> pyobj" where
  "failure_record response_text =
     PyDict [(ustr ''error'', PyStr (ustr ''JSON parsing failed'')),
             (ustr ''raw_response'', PyStr response_text)]"

text \<open>
  Lines 294 to 314: what the function returns for the text of the model's response. A
  \<open>JSONDecodeError\<close> is caught by the inner handler (lines 307 to 310), which returns
  the failure record. Any other exception of the decoder passes it and is caught by the
  handler of the whole function (lines 312 to 314), which returns a record with the
  single key \<open>error\<close> and the exception's message. The messages shown in the user
  interface are not part of the model.
\<close>

definition normalize :: "nat \<Rightarrow> pystr \<Rightarrow> pyobj" where
  "normalize room text0 =
     (let response_text = clean_markdown text0
      in case json_loads room response_text of
           Inr parsed_data \<Rightarrow> parsed_data
         | Inl JSONDecodeError \<Rightarrow> failure_record response_text
         | Inl (ValueError e) \<Rightarrow> PyDict [(ustr ''error'', PyStr e)]
         | Inl (RecursionError e) \<Rightarrow> PyDict [(ustr ''error'', PyStr e)])"

text \<open>
  The whole function. The call of the remote model is a parameter: it maps the prompt to
  the response text, or to the message of the exception it raises, which the outer
  handler turns into a record with the single key \<open>error\<close>.
\<close>

definition parse_resume_with_ai :: "(pystr \<Rightarrow> pystr + pystr) \<Rightarrow> nat \<Rightarrow> pystr \<Rightarrow> pyobj" where
  "parse_resume_with_ai generate_content room resume_text =
     (case generate_content (create_parsing_prompt resume_text) of
        Inl e \<Rightarrow> PyDict [(ustr ''error'', PyStr e)]
      | Inr text0 \<Rightarrow> normalize room text0)"

section \<open>Properties of the extractor\<close>

subsection \<open>PDF\<close>

text \<open>
  One block of the PDF text: the marker of a page, its text and a line break. The pages
  that contribute are the ones whose text layer is a non-empty string, numbered by their
  position among all pages.
\<close>

definition page_block :: "nat \<times> pystr option \<Rightarrow> pystr" where
  "page_block np = page_marker (fst np) @ the (snd np) @ ustr ''\<newline>''"

definition numbered_from :: "nat \<Rightarrow> 'a list \<Rightarrow> (nat \<times> 'a) list" where
  "numbered_from n xs = zip [n ..< n + length xs] xs"

definition pdf_text :: "pystr option list \<Rightarrow> pystr" where
  "pdf_text pages =
     concat (map page_block (filter (\<lambda>np. truthy (snd np)) (numbered_from 1 pages)))"

lemma numbered_from_Nil: "numbered_from n [] = []"
  by (simp add: numbered_from_def)

lemma numbered_from_Cons: "numbered_from n (x # xs) = (n, x) # numbered_from (Suc n) xs"
  by (simp add: numbered_from_def upt_rec)

lemma pdf_loop_blocks:
  "pdf_loop n pages acc =
     acc @ concat (map page_block (filter (\<lambda>np. truthy (snd np)) (numbered_from n pages)))"
proof (induction pages arbitrary: n acc)
  case Nil
  show ?case by (simp add: numbered_from_Nil)
next
  case (Cons p ps)
  show ?case
    by (simp add: Cons.IH numbered_from_Cons page_block_def)
qed

lemma strip_Nil: "strip [] = []"
  by (simp add: strip_def)

lemma last_dropWhile_keep: "dropWhile P xs \<noteq> [] \<Longrightarrow> last (dropWhile P xs) = last xs"
  by (induction xs) (auto split: if_splits)

text \<open>What \<open>strip\<close> returns neither begins nor ends with a whitespace character.\<close>

lemma strip_trimmed:
  "strip s = [] \<or> (\<not> isspace (hd (strip s)) \<and> \<not> isspace (last (strip s)))"
proof (cases "strip s = []")
  case True
  then show ?thesis by simp
next
  case False
  define t where "t = dropWhile isspace s"
  define u where "u = dropWhile isspace (rev t)"
  have s: "strip s = rev u"
    by (simp add: strip_def t_def u_def)
  with False have u: "u \<noteq> []" by simp
  then have t: "t \<noteq> []" by (auto simp: u_def)
  have "\<not> isspace (hd u)"
    using u unfolding u_def by (rule hd_dropWhile)
  then have l: "\<not> isspace (last (strip s))"
    using u by (simp add: s last_rev)
  have "last u = last (rev t)"
    using u unfolding u_def by (rule last_dropWhile_keep)
  then have "hd (strip s) = hd t"
    using u t by (simp add: s hd_rev last_rev)
  moreover have "\<not> isspace (hd t)"
    using t unfolding t_def by (rule hd_dropWhile)
  ultimately show ?thesis using l by simp
qed

text \<open>
  C5. For a valid PDF the extractor succeeds with the trimmed concatenation, in page
  order, of one block (page marker, then the page's text) for exactly the pages whose
  text layer is non-empty; when every page has text there are as many blocks as pages,
  numbered 1 to N in page order; a PDF with no page, or with no page that has text,
  gives the empty string as a success.
\<close>

theorem extract_text_from_pdf_blocks:
  assumes "reader file_content = Inr pages"
  shows "extract_text_from_pdf reader file_content = Inr (strip (pdf_text pages)) \<and>
         (list_all truthy pages \<longrightarrow>
            pdf_text pages = concat (map page_block (zip [1 ..< 1 + length pages] pages))) \<and>
         (list_all (\<lambda>p. \<not> truthy p) pages \<longrightarrow>
            extract_text_from_pdf reader file_content = Inr [])"
proof (intro conjI impI)
  show full: "extract_text_from_pdf reader file_content = Inr (strip (pdf_text pages))"
    using assms by (simp add: extract_text_from_pdf_def pdf_loop_blocks pdf_text_def)
  show "pdf_text pages = concat (map page_block (zip [1 ..< 1 + length pages] pages))"
    if "list_all truthy pages"
  proof -
    have "filter (\<lambda>np. truthy (snd np)) (numbered_from 1 pages) = numbered_from 1 pages"
      using that
      by (intro filter_True) (auto simp: numbered_from_def list_all_iff dest: set_zip_rightD)
    then show ?thesis
      by (simp add: pdf_text_def numbered_from_def)
  qed
  show "extract_text_from_pdf reader file_content = Inr []"
    if "list_all (\<lambda>p. \<not> truthy p) pages"
  proof -
    have "filter (\<lambda>np. truthy (snd np)) (numbered_from 1 pages) = []"
      using that
      by (auto simp: filter_empty_conv numbered_from_def list_all_iff dest: set_zip_rightD)
    then have "pdf_text pages = []"
      by (simp add: pdf_text_def)
    with full show ?thesis
      by (simp add: strip_Nil)
  qed
qed

lemmas eval_text =
  pdf_text_def numbered_from_Cons numbered_from_Nil page_block_def page_marker_def
  str_nat.simps strip_def isspace_def ustr_def

theorem extract_text_from_pdf_blocks_witness:
  "extract_text_from_pdf (\<lambda>b. Inr [Some (ustr ''Hi''), Some (ustr ''Yo '')]) [1, 2] =
     Inr (ustr ''--- Page 1 ---\<newline>Hi\<newline>\<newline>--- Page 2 ---\<newline>Yo'') \<and>
   extract_text_from_pdf (\<lambda>b. Inr [Some (ustr ''Hi''), None, Some [], Some (ustr ''Yo'')]) [] =
     Inr (ustr ''--- Page 1 ---\<newline>Hi\<newline>\<newline>--- Page 4 ---\<newline>Yo'') \<and>
   extract_text_from_pdf (\<lambda>b. Inr [None, Some []]) [] = Inr [] \<and>
   extract_text_from_pdf (\<lambda>b. Inr []) [] = Inr []"
  using
    extract_text_from_pdf_blocks
      [of "\<lambda>b. Inr [Some (ustr ''Hi''), Some (ustr ''Yo '')]" "[1, 2]"
          "[Some (ustr ''Hi''), Some (ustr ''Yo '')]"]
    extract_text_from_pdf_blocks
      [of "\<lambda>b. Inr [Some (ustr ''Hi''), None, Some [], Some (ustr ''Yo'')]" "[]"
          "[Some (ustr ''Hi''), None, Some [], Some (ustr ''Yo'')]"]
    extract_text_from_pdf_blocks [of "\<lambda>b. Inr [None, Some []]" "[]" "[None, Some []]"]
    extract_text_from_pdf_blocks [of "\<lambda>b. Inr []" "[]" "[]"]
  by (simp add: eval_text)

subsection \<open>DOCX\<close>

definition docx_text :: "pystr list \<Rightarrow> pystr" where
  "docx_text paragraphs =
     concat (map (\<lambda>p. p @ ustr ''\<newline>'') (filter (\<lambda>p. strip p \<noteq> []) paragraphs))"

lemma docx_loop_lines:
  "docx_loop paragraphs acc =
     acc @ concat (map (\<lambda>p. p @ ustr ''\<newline>'') (filter (\<lambda>p. strip p \<noteq> []) paragraphs))"
  by (induction paragraphs arbitrary: acc) simp_all

text \<open>
  C6. For a valid DOCX with paragraphs P1..Pk the extractor succeeds with the text made
  of the paragraphs that are non-blank after trimming, each followed by a line break, in
  document order, the blank ones left out; the whole text is trimmed before it is
  returned, so the result neither begins nor ends with whitespace.
\<close>

theorem extract_text_from_docx_lines:
  assumes "reader file_content = Inr paragraphs"
  shows "\<exists>r. extract_text_from_docx reader file_content = Inr r \<and>
           r = strip (concat (map (\<lambda>p. p @ ustr ''\<newline>'')
                                  (filter (\<lambda>p. strip p \<noteq> []) paragraphs))) \<and>
           (r = [] \<or> (\<not> isspace (hd r) \<and> \<not> isspace (last r)))"
  using assms strip_trimmed [of "docx_loop paragraphs []"]
  by (simp add: extract_text_from_docx_def docx_loop_lines)

theorem extract_text_from_docx_lines_witness:
  "extract_text_from_docx
     (\<lambda>b. Inr [ustr '' '', ustr '' Jane Doe'', [], ustr ''Engineer '', ustr ''\<newline>''])
     [80, 75] =
   Inr (ustr ''Jane Doe\<newline>Engineer'')"
  using extract_text_from_docx_lines
    [of "\<lambda>b. Inr [ustr '' '', ustr '' Jane Doe'', [], ustr ''Engineer '', ustr ''\<newline>'']"
        "[80, 75]" "[ustr '' '', ustr '' Jane Doe'', [], ustr ''Engineer '', ustr ''\<newline>'']"]
  by (simp add: strip_def isspace_def ustr_def)

subsection \<open>Dispatch on the file name\<close>

lemma lower_lower: "lower (lower s) = lower s"
  by (simp add: lower_def lower_char_def)

lemma endswith_last: "endswith s p \<Longrightarrow> p \<noteq> [] \<Longrightarrow> last s = last p"
proof -
  assume e: "endswith s p" and p: "p \<noteq> []"
  then have "drop (length s - length p) s \<noteq> []"
    by (simp add: endswith_def)
  then have "last (drop (length s - length p) s) = last s"
    by (intro last_drop) simp
  with e show ?thesis
    by (simp add: endswith_def)
qed

lemma doc_not_pdf:
  "endswith s (ustr ''.doc'') \<or> endswith s (ustr ''.docx'') \<Longrightarrow> \<not> endswith s (ustr ''.pdf'')"
  by (auto dest!: endswith_last simp: ustr_def)

definition resume_txt :: uploaded_file where
  "resume_txt = \<lparr>name = ustr ''resume.txt'', data = [72, 105, 33], pos = 0\<rparr>"

text \<open>
  C3 as the specification states it fails: for \<open>resume.txt\<close> the upload has been read
  (the read is the first effect, and the stream is left at its end) when the file name
  is refused.
\<close>

theorem unsupported_read_first_counterexample:
  "ReadUpload \<in> set (events (extract_text_from_file (\<lambda>b. Inr []) (\<lambda>b. Inr []) resume_txt)) \<and>
   pos (upload (extract_text_from_file (\<lambda>b. Inr []) (\<lambda>b. Inr []) resume_txt)) = 3 \<and>
   pos resume_txt = 0"
  by (simp add: extract_text_from_file_def read_def resume_txt_def lower_def lower_char_def
      endswith_def ustr_def)

text \<open>
  C3, amended. For every uploaded file whose lower-cased name ends in none of \<open>.pdf\<close>,
  \<open>.docx\<close>, \<open>.doc\<close>, the extractor fails with the unsupported-format exception; the
  only effect before the failure is the read of the upload, which leaves the stream at
  its end, and no decoder is reached.
\<close>

theorem unsupported_format_no_decoding:
  assumes "\<not> endswith (lower (name f)) (ustr ''.pdf'')"
    and "\<not> endswith (lower (name f)) (ustr ''.docx'')"
    and "\<not> endswith (lower (name f)) (ustr ''.doc'')"
  shows "outcome (extract_text_from_file pdf docx f) = Inl UnsupportedFormat \<and>
         events (extract_text_from_file pdf docx f) = [ReadUpload] \<and>
         upload (extract_text_from_file pdf docx f) = f\<lparr>pos := max (pos f) (length (data f))\<rparr>"
  using assms by (simp add: extract_text_from_file_def read_def)

theorem unsupported_format_no_decoding_witness:
  "outcome (extract_text_from_file (\<lambda>b. Inr []) (\<lambda>b. Inr []) resume_txt) = Inl UnsupportedFormat \<and>
   events (extract_text_from_file (\<lambda>b. Inr []) (\<lambda>b. Inr []) resume_txt) = [ReadUpload] \<and>
   upload (extract_text_from_file (\<lambda>b. Inr []) (\<lambda>b. Inr []) resume_txt) = resume_txt\<lparr>pos := 3\<rparr>"
proof -
  have "\<not> endswith (lower (name resume_txt)) (ustr ''.pdf'')"
    and "\<not> endswith (lower (name resume_txt)) (ustr ''.docx'')"
    and "\<not> endswith (lower (name resume_txt)) (ustr ''.doc'')"
    by (simp_all add: resume_txt_def lower_def lower_char_def endswith_def ustr_def)
  from unsupported_format_no_decoding [OF this, of "\<lambda>b. Inr []" "\<lambda>b. Inr []"]
  show ?thesis
    by (simp add: resume_txt_def)
qed

text \<open>
  C9. The dispatch looks at the lower-cased file name only, so two names that differ in
  letter case are treated alike; and a name ending in \<open>.doc\<close> is accepted and handed to
  the DOCX extractor, with the bytes read from the upload, exactly as a name ending in
  \<open>.docx\<close> is.
\<close>

theorem dispatch_case_insensitive_doc_as_docx:
  "(lower n1 = lower n2 \<longrightarrow>
      outcome (extract_text_from_file pdf docx (f\<lparr>name := n1\<rparr>)) =
      outcome (extract_text_from_file pdf docx (f\<lparr>name := n2\<rparr>)) \<and>
      events (extract_text_from_file pdf docx (f\<lparr>name := n1\<rparr>)) =
      events (extract_text_from_file pdf docx (f\<lparr>name := n2\<rparr>))) \<and>
   (endswith (lower (name f)) (ustr ''.doc'') \<or> endswith (lower (name f)) (ustr ''.docx'') \<longrightarrow>
      outcome (extract_text_from_file pdf docx f) = extract_text_from_docx docx (fst (read f)) \<and>
      events (extract_text_from_file pdf docx f) = [ReadUpload, DecodeDOCX])"
proof (intro conjI impI)
  assume "endswith (lower (name f)) (ustr ''.doc'') \<or> endswith (lower (name f)) (ustr ''.docx'')"
  then have d: "endswith (lower (name f)) (ustr ''.docx'') \<or> endswith (lower (name f)) (ustr ''.doc'')"
    and p: "\<not> endswith (lower (name f)) (ustr ''.pdf'')"
    using doc_not_pdf [of "lower (name f)"] by auto
  from d p show "outcome (extract_text_from_file pdf docx f) = extract_text_from_docx docx (fst (read f))"
    by (simp add: extract_text_from_file_def read_def)
  from d p show "events (extract_text_from_file pdf docx f) = [ReadUpload, DecodeDOCX]"
    by (simp add: extract_text_from_file_def read_def)
qed (simp_all add: extract_text_from_file_def read_def Let_def)

theorem dispatch_case_insensitive_doc_as_docx_witness:
  "outcome (extract_text_from_file (\<lambda>b. Inl []) (\<lambda>b. Inr [b])
              \<lparr>name = ustr ''My CV.DOC'', data = [72, 105], pos = 0\<rparr>) = Inr [72, 105] \<and>
   events (extract_text_from_file (\<lambda>b. Inl []) (\<lambda>b. Inr [b])
              \<lparr>name = ustr ''My CV.DOC'', data = [72, 105], pos = 0\<rparr>) = [ReadUpload, DecodeDOCX] \<and>
   outcome (extract_text_from_file (\<lambda>b. Inl []) (\<lambda>b. Inr [b])
              \<lparr>name = ustr ''My CV.DOC'', data = [72, 105], pos = 0\<rparr>) =
   outcome (extract_text_from_file (\<lambda>b. Inl []) (\<lambda>b. Inr [b])
              \<lparr>name = ustr ''my cv.docx'', data = [72, 105], pos = 0\<rparr>) \<and>
   lower (ustr ''REPORT.Pdf'') = lower (ustr ''report.pdf'') \<and>
   outcome (extract_text_from_file (\<lambda>b. Inl []) (\<lambda>b. Inr [b])
              \<lparr>name = ustr ''REPORT.Pdf'', data = [72, 105], pos = 0\<rparr>) =
   outcome (extract_text_from_file (\<lambda>b. Inl []) (\<lambda>b. Inr [b])
              \<lparr>name = ustr ''report.pdf'', data = [72, 105], pos = 0\<rparr>)"
proof -
  let ?f = "\<lparr>name = ustr ''My CV.DOC'', data = [72, 105], pos = 0\<rparr>"
  let ?g = "\<lparr>name = ustr ''my cv.docx'', data = [72, 105], pos = 0\<rparr>"
  let ?E = "extract_text_from_file (\<lambda>b. Inl []) (\<lambda>b. Inr [b])"
  have doc: "endswith (lower (name ?f)) (ustr ''.doc'')"
    and docx: "endswith (lower (name ?g)) (ustr ''.docx'')"
    by (simp_all add: lower_def lower_char_def endswith_def ustr_def)
  have r: "extract_text_from_docx (\<lambda>b. Inr [b]) (fst (read ?f)) = Inr [72, 105]"
    "fst (read ?g) = fst (read ?f)"
    by (simp_all add: read_def extract_text_from_docx_def strip_def isspace_def ustr_def)
  from dispatch_case_insensitive_doc_as_docx [of "name ?f" "name ?f" "\<lambda>b. Inl []" "\<lambda>b. Inr [b]" ?f] doc
  have f: "outcome (?E ?f) = extract_text_from_docx (\<lambda>b. Inr [b]) (fst (read ?f))"
    "events (?E ?f) = [ReadUpload, DecodeDOCX]"
    by blast+
  from dispatch_case_insensitive_doc_as_docx [of "name ?g" "name ?g" "\<lambda>b. Inl []" "\<lambda>b. Inr [b]" ?g] docx
  have g: "outcome (?E ?g) = extract_text_from_docx (\<lambda>b. Inr [b]) (fst (read ?g))"
    by blast
  have l: "lower (ustr ''REPORT.Pdf'') = lower (ustr ''report.pdf'')"
    by (simp add: lower_def lower_char_def ustr_def)
  from dispatch_case_insensitive_doc_as_docx
         [of "ustr ''REPORT.Pdf''" "ustr ''report.pdf''" "\<lambda>b. Inl []" "\<lambda>b. Inr [b]" ?f] l
  have p: "outcome (?E (?f\<lparr>name := ustr ''REPORT.Pdf''\<rparr>)) =
           outcome (?E (?f\<lparr>name := ustr ''report.pdf''\<rparr>))"
    by blast
  show ?thesis
    using p l unfolding f g r by simp
qed

section \<open>Properties of the normalizer\<close>

lemmas eval_json =
  json_loads_def emit_def is_json_ws_def match_number_def match_integer_def
  match_frac_def match_exp_def is_digit_def py_int_def int_of_digits_def dict_def
  BACKSLASH_def hexval_def PyLong_FromString_def int_max_str_digits_def

lemmas eval_clean =
  clean_markdown_def strip_def isspace_def startswith_def endswith_def ustr_def Let_def


lemma json_loads_Nil: "json_loads room [] = Inl JSONDecodeError"
  by (simp add: json_loads_def)


lemma strip_keeps_head: "\<not> isspace c \<Longrightarrow> \<exists>r. strip (c # xs) = c # r"
  by (simp add: strip_def dropWhile_append3)

lemma strip_id:
  "s \<noteq> [] \<Longrightarrow> \<not> isspace (hd s) \<Longrightarrow> \<not> isspace (last s) \<Longrightarrow> strip s = s"
proof -
  assume s: "s \<noteq> []" and h: "\<not> isspace (hd s)" and l: "\<not> isspace (last s)"
  from s h have 1: "dropWhile isspace s = s" by (cases s) auto
  from s l have 2: "dropWhile isspace (rev s) = rev s" by (cases "rev s") (auto simp: last_rev hd_rev)
  show ?thesis by (simp add: strip_def 1 2)
qed

lemma strip_strip: "strip (strip s) = strip s"
proof (cases "strip s = []")
  case True
  then show ?thesis by (simp add: strip_Nil)
next
  case False
  with strip_trimmed [of s] show ?thesis by (intro strip_id) auto
qed



text \<open>
  \<open>d.get(k)\<close> for a \<open>dict\<close> \<open>d\<close>; \<open>None\<close> when the key is absent, and for a value that
  is not a \<open>dict\<close>.
\<close>

fun get :: "pyobj \<Rightarrow> pystr \<Rightarrow> pyobj option" where
  "get (PyDict d) k = map_of d k"
| "get _ k = None"

text \<open>
  The characters with which a JSON value can begin: the quotation mark, a brace or
  bracket, the first letters of \<open>null\<close>, \<open>true\<close>, \<open>false\<close>, \<open>NaN\<close> and
  \<open>Infinity\<close>, the minus sign and the digits.
\<close>

definition begins_value :: "nat \<Rightarrow> bool" where
  "begins_value c \<longleftrightarrow>
     c = 34 \<or> c = 123 \<or> c = 91 \<or> c = 110 \<or> c = 116 \<or> c = 102 \<or> c = 78 \<or> c = 73 \<or>
     c = 45 \<or> is_digit c"

lemma match_integer_None: "\<not> is_digit c \<Longrightarrow> c \<noteq> 45 \<Longrightarrow> match_integer (c # cs) = None"
  by (auto simp: match_integer_def is_digit_def)

lemma match_number_None: "\<not> is_digit c \<Longrightarrow> c \<noteq> 45 \<Longrightarrow> match_number (c # cs) = None"
  by (simp add: match_number_def match_integer_None)

lemma json_loads_no_value:
  "\<not> begins_value c \<Longrightarrow> \<not> is_json_ws c \<Longrightarrow> json_loads room (c # cs) = Inl JSONDecodeError"
  by (auto simp: json_loads_def begins_value_def match_number_None)

lemma is_json_ws_isspace: "is_json_ws c \<Longrightarrow> isspace c"
  by (auto simp: is_json_ws_def isspace_def)

lemma clean_markdown_trimmed:
  "clean_markdown t = [] \<or>
   (\<not> isspace (hd (clean_markdown t)) \<and> \<not> isspace (last (clean_markdown t)))"
  unfolding clean_markdown_def Let_def by (rule strip_trimmed)

lemma json_loads_clean_no_value:
  assumes "clean_markdown t = [] \<or> \<not> begins_value (hd (clean_markdown t))"
  shows "json_loads room (clean_markdown t) = Inl JSONDecodeError"
proof (cases "clean_markdown t")
  case Nil
  then show ?thesis by (simp add: json_loads_Nil)
next
  case (Cons c cs)
  with assms clean_markdown_trimmed [of t] have "\<not> begins_value c" "\<not> is_json_ws c"
    by (auto dest: is_json_ws_isspace)
  then show ?thesis unfolding Cons by (rule json_loads_no_value)
qed

text \<open>A text that is trimmed and has no backquote at either end is left as it is.\<close>

lemma startswith_hd: "startswith s p \<Longrightarrow> p \<noteq> [] \<Longrightarrow> s \<noteq> [] \<and> hd s = hd p"
  by (cases s; cases p) (auto simp: startswith_def)

lemma clean_markdown_id:
  assumes "s \<noteq> []" "\<not> isspace (hd s)" "\<not> isspace (last s)" "hd s \<noteq> 96" "last s \<noteq> 96"
  shows "clean_markdown s = s"
proof -
  have 1: "strip s = s" using assms by (simp add: strip_id)
  have 2: "\<not> startswith s (ustr ''```json'')"
    using startswith_hd [of s "ustr ''```json''"] assms by (auto simp: ustr_def)
  have 3: "\<not> endswith s (ustr ''```'')"
    using endswith_last [of s "ustr ''```''"] assms by (auto simp: ustr_def)
  show ?thesis by (simp add: clean_markdown_def 1 2 3)
qed

text \<open>An integer literal of \<open>n + 1\<close> digits \<open>1\<close>, followed by a space and the letter \<open>x\<close>.\<close>

definition long_integer :: "nat \<Rightarrow> pystr" where
  "long_integer n = replicate (Suc n) 49 @ [32, 120]"

lemma clean_long_integer: "clean_markdown (long_integer n) = long_integer n"
  by (rule clean_markdown_id) (simp_all add: long_integer_def isspace_def)

lemma match_number_long_integer:
  "match_number (long_integer n) = Some (PyLong_FromString (replicate (Suc n) 49), [32, 120])"
proof -
  have d: "is_digit 49" by (simp add: is_digit_def)
  have t: "takeWhile is_digit (replicate n 49 @ [32, 120]) = replicate n 49"
    by (induction n) (simp_all add: is_digit_def)
  have r: "dropWhile is_digit (replicate n 49 @ [32, 120]) = [32, 120]"
    by (induction n) (simp_all add: is_digit_def)
  have i: "match_integer (long_integer n) = Some (replicate (Suc n) 49, [32, 120])"
    by (simp add: match_integer_def long_integer_def d t r)
  show ?thesis
    by (simp add: match_number_def i match_frac_def match_exp_def)
qed

lemma digits_long_integer: "length (filter is_digit (replicate (Suc n) 49)) = Suc n"
  by (simp add: is_digit_def)

lemma json_loads_long_integer:
  assumes "int_max_str_digits \<le> n"
  shows "json_loads room (long_integer n) =
         Inl (ValueError
           (ustr ''Exceeds the limit ('' @ str_nat int_max_str_digits @
            ustr '' digits) for integer string conversion: value has '' @ str_nat (Suc n) @
            ustr '' digits; use sys.set_int_max_str_digits() to increase the limit''))"
proof -
  have p: "PyLong_FromString (replicate (Suc n) 49) =
         Inl (ValueError
           (ustr ''Exceeds the limit ('' @ str_nat int_max_str_digits @
            ustr '' digits) for integer string conversion: value has '' @ str_nat (Suc n) @
            ustr '' digits; use sys.set_int_max_str_digits() to increase the limit''))"
    using assms unfolding PyLong_FromString_def digits_long_integer Let_def by simp
  have l: "long_integer n = 49 # (replicate n 49 @ [32, 120])"
    by (simp add: long_integer_def)
  have "lex (long_integer n) = [TRaise (ValueError
           (ustr ''Exceeds the limit ('' @ str_nat int_max_str_digits @
            ustr '' digits) for integer string conversion: value has '' @ str_nat (Suc n) @
            ustr '' digits; use sys.set_int_max_str_digits() to increase the limit''))]"
    using match_number_long_integer [of n] unfolding p
    unfolding l by (simp add: is_json_ws_def ustr_def)
  then show ?thesis by (simp add: json_loads_def)
qed

text \<open>Arrays opened one inside the other, none of them closed.\<close>

lemma lex_brackets: "lex (replicate n 91) = replicate n TLBrack"
  by (induction n) (simp_all add: is_json_ws_def)

lemma clean_brackets: "clean_markdown (replicate (Suc n) 91) = replicate (Suc n) 91"
  by (rule clean_markdown_id) (simp_all add: isspace_def)

lemma scan_once_too_deep:
  "length st \<le> room \<Longrightarrow>
   scan_once room (replicate (Suc (room - length st)) TLBrack) st = Inl array_too_deep"
proof (induction "room - length st" arbitrary: st)
  case 0
  then show ?case by simp
next
  case (Suc k)
  then have k: "k = room - length (InList [] # st)" and l: "length (InList [] # st) \<le> room"
    and n: "\<not> room \<le> length st" by simp_all
  from Suc.hyps(1) [OF k l] have
    "scan_once room (replicate (Suc k) TLBrack) (InList [] # st) = Inl array_too_deep"
    using k by simp
  moreover have "room - length st = Suc k" using Suc.hyps(2) by simp
  ultimately show ?case using n by (cases k) simp_all
qed

lemma json_loads_too_deep: "json_loads room (replicate (Suc room) 91) = Inl array_too_deep"
proof -
  have "scan_once room (replicate (Suc (room - length ([] :: frame list))) TLBrack) [] =
        Inl array_too_deep"
    by (rule scan_once_too_deep) simp
  then have "scan_once room (replicate (Suc room) TLBrack) [] = Inl array_too_deep"
    by (simp only: list.size minus_nat.diff_0)
  then show ?thesis by (simp only: json_loads_def lex_brackets)
qed

text \<open>
  C2 as the specification states it fails. Three texts that are not valid JSON and for
  which the result is not a failure record carrying the text: an integer literal of 4301
  digits followed by a letter, where the decoder raises \<open>ValueError\<close>; 901 opening
  brackets when the recursion limit leaves room for 900 levels, where it raises
  \<open>RecursionError\<close>; and \<open>NaN\<close>, which the decoder accepts. In the first two the
  handler of the whole function returns a record with the exception's message as its
  only entry, and the text is lost.
\<close>

theorem normalize_not_json_counterexample:
  "normalize 900 (replicate 4301 49 @ [32, 120]) =
     PyDict [(ustr ''error'', PyStr (ustr
       ''Exceeds the limit (4300 digits) for integer string conversion: value has 4301 digits; use sys.set_int_max_str_digits() to increase the limit''))] \<and>
   get (normalize 900 (replicate 4301 49 @ [32, 120])) (ustr ''raw_response'') = None \<and>
   normalize 900 (replicate 901 91) =
     PyDict [(ustr ''error'', PyStr (ustr
       ''maximum recursion depth exceeded while decoding a JSON array from a unicode string''))] \<and>
   get (normalize 900 (replicate 901 91)) (ustr ''raw_response'') = None \<and>
   normalize 900 (ustr ''NaN'') = PyFloat NaN"
proof -
  have l: "replicate 4301 49 @ [32, 120] = long_integer 4300"
    by (simp add: long_integer_def)
  have j: "json_loads 900 (long_integer 4300) = Inl (ValueError (ustr
       ''Exceeds the limit (4300 digits) for integer string conversion: value has 4301 digits; use sys.set_int_max_str_digits() to increase the limit''))"
    using json_loads_long_integer [of 4300 900]
    by (simp add: int_max_str_digits_def str_nat.simps ustr_def)
  have a: "normalize 900 (long_integer 4300) =
     PyDict [(ustr ''error'', PyStr (ustr
       ''Exceeds the limit (4300 digits) for integer string conversion: value has 4301 digits; use sys.set_int_max_str_digits() to increase the limit''))]"
    by (simp add: normalize_def clean_long_integer j)
  have d: "replicate 901 91 = replicate (Suc 900) (91 :: nat)" by simp
  have b: "normalize 900 (replicate 901 91) =
     PyDict [(ustr ''error'', PyStr (ustr
       ''maximum recursion depth exceeded while decoding a JSON array from a unicode string''))]"
    unfolding d
    by (simp only: normalize_def clean_brackets json_loads_too_deep Let_def array_too_deep_def
          sum.case raised.case)
  have c: "normalize 900 (ustr ''NaN'') = PyFloat NaN"
    by (simp add: normalize_def eval_clean eval_json)
  show ?thesis
    unfolding l a b c by (simp add: ustr_def)
qed

text \<open>
  C2, amended. Whenever the decoder rejects the cleaned text (the response without its
  code fence and surrounding whitespace) with \<open>JSONDecodeError\<close>, the result is the
  record of the two entries \<open>error\<close> and \<open>raw_response\<close>, and \<open>raw_response\<close> is
  exactly the cleaned text. This is so whenever the cleaned text is empty or begins with
  a character with which no JSON value begins, and for the response \<open>not json\<close> the
  text kept is \<open>not json\<close>. When the decoder raises \<open>ValueError\<close> or
  \<open>RecursionError\<close> instead, the result holds the exception's message and nothing
  else.
\<close>

theorem normalize_failure_keeps_text:
  \<open>(json_loads room (clean_markdown text0) = Inl JSONDecodeError \<longrightarrow>
      normalize room text0 =
        PyDict [(ustr ''error'', PyStr (ustr ''JSON parsing failed'')),
                (ustr ''raw_response'', PyStr (clean_markdown text0))] \<and>
      get (normalize room text0) (ustr ''raw_response'') = Some (PyStr (clean_markdown text0))) \<and>
   (clean_markdown text0 = [] \<or> \<not> begins_value (hd (clean_markdown text0)) \<longrightarrow>
      json_loads room (clean_markdown text0) = Inl JSONDecodeError) \<and>
   (\<forall>e. json_loads room (clean_markdown text0) = Inl (ValueError e) \<or>
        json_loads room (clean_markdown text0) = Inl (RecursionError e) \<longrightarrow>
        normalize room text0 = PyDict [(ustr ''error'', PyStr e)]) \<and>
   normalize room (ustr ''not json'') =
     PyDict [(ustr ''error'', PyStr (ustr ''JSON parsing failed'')),
             (ustr ''raw_response'', PyStr (ustr ''not json''))]\<close>
proof (intro conjI impI allI)
  assume j: "json_loads room (clean_markdown text0) = Inl JSONDecodeError"
  then show n: "normalize room text0 =
        PyDict [(ustr ''error'', PyStr (ustr ''JSON parsing failed'')),
                (ustr ''raw_response'', PyStr (clean_markdown text0))]"
    by (simp add: normalize_def failure_record_def)
  show "get (normalize room text0) (ustr ''raw_response'') = Some (PyStr (clean_markdown text0))"
    unfolding n by (simp add: ustr_def)
next
  assume "clean_markdown text0 = [] \<or> \<not> begins_value (hd (clean_markdown text0))"
  then show "json_loads room (clean_markdown text0) = Inl JSONDecodeError"
    by (rule json_loads_clean_no_value)
next
  fix e
  assume "json_loads room (clean_markdown text0) = Inl (ValueError e) \<or>
          json_loads room (clean_markdown text0) = Inl (RecursionError e)"
  then show "normalize room text0 = PyDict [(ustr ''error'', PyStr e)]"
    by (auto simp: normalize_def)
next
  show \<open>normalize room (ustr ''not json'') =
     PyDict [(ustr ''error'', PyStr (ustr ''JSON parsing failed'')),
             (ustr ''raw_response'', PyStr (ustr ''not json''))]\<close>
    by (simp add: normalize_def failure_record_def eval_clean eval_json)
qed

theorem normalize_failure_keeps_text_witness:
  \<open>json_loads 900 (ustr ''{"name": Jane}'') = Inl JSONDecodeError \<and>
   normalize 900 (ustr '' ```json\<newline>{"name": Jane}\<newline>``` '') =
     PyDict [(ustr ''error'', PyStr (ustr ''JSON parsing failed'')),
             (ustr ''raw_response'', PyStr (ustr ''{"name": Jane}''))] \<and>
   \<not> begins_value (hd (ustr ''Sorry, no resume.'')) \<and>
   normalize 900 (ustr '' Sorry, no resume. '') =
     PyDict [(ustr ''error'', PyStr (ustr ''JSON parsing failed'')),
             (ustr ''raw_response'', PyStr (ustr ''Sorry, no resume.''))] \<and>
   get (normalize 900 (ustr '' Sorry, no resume. '')) (ustr ''raw_response'') =
     Some (PyStr (ustr ''Sorry, no resume.'')) \<and>
   normalize 900 (replicate 901 91) =
     PyDict [(ustr ''error'', PyStr (ustr
       ''maximum recursion depth exceeded while decoding a JSON array from a unicode string''))]\<close>
proof -
  let ?a = \<open>ustr '' ```json\<newline>{"name": Jane}\<newline>``` ''\<close>
  let ?b = \<open>ustr '' Sorry, no resume. ''\<close>
  let ?c = "replicate 901 (91 :: nat)"
  have ca: \<open>clean_markdown ?a = ustr ''{"name": Jane}''\<close>
    and cb: \<open>clean_markdown ?b = ustr ''Sorry, no resume.''\<close>
    by (simp_all add: eval_clean)
  have cc: "clean_markdown ?c = ?c"
    using clean_brackets [of 900] by simp
  have ja: \<open>json_loads 900 (ustr ''{"name": Jane}'') = Inl JSONDecodeError\<close>
    by (simp add: eval_json ustr_def)
  have hb: \<open>\<not> begins_value (hd (ustr ''Sorry, no resume.''))\<close>
    by (simp add: begins_value_def is_digit_def ustr_def)
  have jc: "json_loads 900 ?c = Inl array_too_deep"
    using json_loads_too_deep [of 900] by simp
  from normalize_failure_keeps_text [where ?text0.0 = ?a and room = 900] ca ja
  have a: \<open>normalize 900 ?a =
     PyDict [(ustr ''error'', PyStr (ustr ''JSON parsing failed'')),
             (ustr ''raw_response'', PyStr (ustr ''{"name": Jane}''))]\<close>
    by simp
  from normalize_failure_keeps_text [where ?text0.0 = ?b and room = 900, unfolded cb] hb
  have b: \<open>normalize 900 ?b =
     PyDict [(ustr ''error'', PyStr (ustr ''JSON parsing failed'')),
             (ustr ''raw_response'', PyStr (ustr ''Sorry, no resume.''))]\<close>
    \<open>get (normalize 900 ?b) (ustr ''raw_response'') = Some (PyStr (ustr ''Sorry, no resume.''))\<close>
    by blast+
  from normalize_failure_keeps_text [where ?text0.0 = ?c and room = 900] cc jc
  have c: "normalize 900 ?c = PyDict [(ustr ''error'', PyStr (ustr
       ''maximum recursion depth exceeded while decoding a JSON array from a unicode string''))]"
    by (simp add: array_too_deep_def)
  from ja hb a b c show ?thesis by blast
qed







text \<open>
  The two shapes of the specification's data model (section 3), written after the
  specification's words to compare the result of the code with them. A ParsedResume is a
  mapping whose keys are among the eight fixed top-level keys (any of them may be
  absent); a failure record holds only an error indicator and the raw text.
\<close>

definition schema_keys :: "pystr list" where
  "schema_keys = map ustr [''personal_info'', ''summary'', ''experience'', ''education'',
     ''skills'', ''certifications'', ''projects'', ''additional'']"

definition spec_ParsedResume :: "pyobj \<Rightarrow> bool" where
  "spec_ParsedResume r =
     (case r of PyDict kvs \<Rightarrow> list_all (\<lambda>kv. fst kv \<in> set schema_keys) kvs | _ \<Rightarrow> False)"

definition spec_ParseFailure :: "pyobj \<Rightarrow> bool" where
  "spec_ParseFailure r =
     (case r of
        PyDict [(k1, PyStr e), (k2, PyStr raw)] \<Rightarrow> k1 = ustr ''error'' \<and> k2 = ustr ''raw_response''
      | _ \<Rightarrow> False)"

lemma spec_ParseFailure_failure_record: "spec_ParseFailure (failure_record t)"
  by (simp add: spec_ParseFailure_def failure_record_def)

lemma shapes_exclusive: "\<not> (spec_ParsedResume r \<and> spec_ParseFailure r)"
  by (auto simp: spec_ParsedResume_def spec_ParseFailure_def schema_keys_def ustr_def
           split: pyobj.splits list.splits prod.splits)

lemma error_only_no_shape:
  "\<not> spec_ParsedResume (PyDict [(ustr ''error'', PyStr e)]) \<and>
   \<not> spec_ParseFailure (PyDict [(ustr ''error'', PyStr e)])"
  by (simp add: spec_ParsedResume_def spec_ParseFailure_def schema_keys_def ustr_def)

text \<open>
  C1 as the specification states it fails: the response \<open>{"foo": 1}\<close> is decoded and
  returned as it is, a value that has neither the ParsedResume shape nor the failure
  shape.
\<close>

theorem normalize_no_schema_check_counterexample:
  \<open>normalize 900 (ustr ''{"foo": 1}'') = PyDict [(ustr ''foo'', PyInt 1)] \<and>
   \<not> spec_ParsedResume (normalize 900 (ustr ''{"foo": 1}'')) \<and>
   \<not> spec_ParseFailure (normalize 900 (ustr ''{"foo": 1}''))\<close>
proof -
  have n: \<open>normalize 900 (ustr ''{"foo": 1}'') = PyDict [(ustr ''foo'', PyInt 1)]\<close>
    by (simp add: normalize_def eval_clean eval_json)
  show ?thesis
    unfolding n
    by (simp add: spec_ParsedResume_def spec_ParseFailure_def schema_keys_def ustr_def)
qed

text \<open>
  C1, amended. For every response text the result is one of three: the value decoded
  from the cleaned text, returned unchanged whatever its shape (it is not checked
  against the ParsedResume schema); the failure record holding only the error indicator
  and the cleaned text, when the decoder rejects it with \<open>JSONDecodeError\<close>; or a record
  holding only the message of another exception of the decoder, which has neither shape.
  No value has both the ParsedResume shape and the failure shape.
\<close>

theorem normalize_success_xor_failure:
  "(\<forall>v. json_loads room (clean_markdown text0) = Inr v \<longrightarrow> normalize room text0 = v) \<and>
   (json_loads room (clean_markdown text0) = Inl JSONDecodeError \<longrightarrow>
      normalize room text0 =
        PyDict [(ustr ''error'', PyStr (ustr ''JSON parsing failed'')),
                (ustr ''raw_response'', PyStr (clean_markdown text0))] \<and>
      spec_ParseFailure (normalize room text0) \<and> \<not> spec_ParsedResume (normalize room text0)) \<and>
   (\<forall>e. json_loads room (clean_markdown text0) = Inl (ValueError e) \<or>
        json_loads room (clean_markdown text0) = Inl (RecursionError e) \<longrightarrow>
        normalize room text0 = PyDict [(ustr ''error'', PyStr e)] \<and>
        \<not> spec_ParseFailure (normalize room text0) \<and> \<not> spec_ParsedResume (normalize room text0)) \<and>
   \<not> (spec_ParsedResume (normalize room text0) \<and> spec_ParseFailure (normalize room text0))"
proof (intro conjI impI allI)
  fix v assume "json_loads room (clean_markdown text0) = Inr v"
  then show "normalize room text0 = v" by (simp add: normalize_def)
next
  assume j: "json_loads room (clean_markdown text0) = Inl JSONDecodeError"
  then have n: "normalize room text0 = failure_record (clean_markdown text0)"
    by (simp add: normalize_def)
  then show "normalize room text0 =
        PyDict [(ustr ''error'', PyStr (ustr ''JSON parsing failed'')),
                (ustr ''raw_response'', PyStr (clean_markdown text0))]"
    by (simp add: failure_record_def)
  show f: "spec_ParseFailure (normalize room text0)"
    unfolding n by (rule spec_ParseFailure_failure_record)
  with shapes_exclusive [of "normalize room text0"]
  show "\<not> spec_ParsedResume (normalize room text0)" by blast
next
  fix e
  assume "json_loads room (clean_markdown text0) = Inl (ValueError e) \<or>
          json_loads room (clean_markdown text0) = Inl (RecursionError e)"
  then show n: "normalize room text0 = PyDict [(ustr ''error'', PyStr e)]"
    by (auto simp: normalize_def)
  show "\<not> spec_ParseFailure (normalize room text0)" "\<not> spec_ParsedResume (normalize room text0)"
    unfolding n using error_only_no_shape [of e] by simp_all
next
  show "\<not> (spec_ParsedResume (normalize room text0) \<and> spec_ParseFailure (normalize room text0))"
    by (rule shapes_exclusive)
qed

theorem normalize_success_xor_failure_witness:
  \<open>normalize 900 (ustr ''{"summary": "x"}'') = PyDict [(ustr ''summary'', PyStr (ustr ''x''))] \<and>
   spec_ParsedResume (normalize 900 (ustr ''{"summary": "x"}'')) \<and>
   \<not> spec_ParseFailure (normalize 900 (ustr ''{"summary": "x"}'')) \<and>
   normalize 900 (ustr ''{"summary": '') =
     PyDict [(ustr ''error'', PyStr (ustr ''JSON parsing failed'')),
             (ustr ''raw_response'', PyStr (ustr ''{"summary":''))] \<and>
   spec_ParseFailure (normalize 900 (ustr ''{"summary": '')) \<and>
   \<not> spec_ParsedResume (normalize 900 (ustr ''{"summary": '')) \<and>
   normalize 900 (replicate 901 91) = PyDict [(ustr ''error'', PyStr (ustr
       ''maximum recursion depth exceeded while decoding a JSON array from a unicode string''))] \<and>
   \<not> spec_ParseFailure (normalize 900 (replicate 901 91)) \<and>
   \<not> spec_ParsedResume (normalize 900 (replicate 901 91))\<close>
proof -
  let ?a = \<open>ustr ''{"summary": "x"}''\<close> and ?b = \<open>ustr ''{"summary": ''\<close>
  let ?c = "replicate 901 (91 :: nat)"
  have ca: \<open>clean_markdown ?a = ustr ''{"summary": "x"}''\<close>
    and cb: \<open>clean_markdown ?b = ustr ''{"summary":''\<close>
    by (simp_all add: eval_clean)
  have cc: "clean_markdown ?c = ?c"
    using clean_brackets [of 900] by simp
  have ja: \<open>json_loads 900 (ustr ''{"summary": "x"}'') =
            Inr (PyDict [(ustr ''summary'', PyStr (ustr ''x''))])\<close>
    and jb: \<open>json_loads 900 (ustr ''{"summary":'') = Inl JSONDecodeError\<close>
    by (simp_all add: eval_json ustr_def)
  have jc: "json_loads 900 ?c = Inl (RecursionError (ustr
       ''maximum recursion depth exceeded while decoding a JSON array from a unicode string''))"
    using json_loads_too_deep [of 900] by (simp add: array_too_deep_def)
  have p: \<open>spec_ParsedResume (PyDict [(ustr ''summary'', PyStr (ustr ''x''))])\<close>
    by (simp add: spec_ParsedResume_def schema_keys_def ustr_def)
  from normalize_success_xor_failure [where ?text0.0 = ?a and room = 900, unfolded ca] ja
  have a: "normalize 900 ?a = PyDict [(ustr ''summary'', PyStr (ustr ''x''))]"
    and a': "\<not> (spec_ParsedResume (normalize 900 ?a) \<and> spec_ParseFailure (normalize 900 ?a))"
    by blast+
  from normalize_success_xor_failure [where ?text0.0 = ?b and room = 900, unfolded cb] jb
  have b: \<open>normalize 900 ?b =
     PyDict [(ustr ''error'', PyStr (ustr ''JSON parsing failed'')),
             (ustr ''raw_response'', PyStr (ustr ''{"summary":''))]\<close>
    "spec_ParseFailure (normalize 900 ?b)" "\<not> spec_ParsedResume (normalize 900 ?b)"
    by blast+
  from normalize_success_xor_failure [where ?text0.0 = ?c and room = 900, unfolded cc] jc
  have c: "normalize 900 ?c = PyDict [(ustr ''error'', PyStr (ustr
       ''maximum recursion depth exceeded while decoding a JSON array from a unicode string''))]"
    "\<not> spec_ParseFailure (normalize 900 ?c)" "\<not> spec_ParsedResume (normalize 900 ?c)"
    by blast+
  from a p have pa: "spec_ParsedResume (normalize 900 ?a)" by simp
  with a' have "\<not> spec_ParseFailure (normalize 900 ?a)" by blast
  with a pa b c show ?thesis by blast
qed



end
